theory Spec2Isabelle
  imports
    Complex_Main
    "HOL-Library.Sublist"
    "HOL-Library.AList"
    "HOL-Library.Multiset"
    "HOL-Library.Char_ord"
    "HOL-Library.List_Lexorder"
    "HOL-Library.Product_Lexorder"
begin

section \<open>Python values and the operations the sources apply to them\<close>

text \<open>
  The records are JSON objects read by \<^verbatim>\<open>json.load\<close> and carried as cells of a
  pandas table. A value is \<^verbatim>\<open>None\<close>, a boolean, an integer, a string, a timestamp (the
  typed \<^verbatim>\<open>date\<close> cell, counted in days), a list, or a dictionary with string keys. A
  dictionary is an association list in insertion order; a lookup takes the first binding
  of a key. Floats are left out: no definition below computes with one.
\<close>

datatype pyval =
    PNone
  | PBool bool
  | PInt int
  | PStr string
  | PTimestamp int
  | PList "pyval list"
  | PDict "(string \<times> pyval) list"

text \<open>
  The exceptions the modelled statements can raise. \<open>DivisionByZero\<close> stands for a true
  division by zero: \<^verbatim>\<open>ZeroDivisionError\<close> on Python integers, a non-finite float
  (\<^verbatim>\<open>inf\<close> or \<^verbatim>\<open>nan\<close>) on numpy scalars.
\<close>

datatype py_error =
    KeyError
  | TypeError
  | AttributeError
  | IndexError
  | ValueError
  | OSError
  | DivisionByZero

type_synonym 'a result = "py_error + 'a"

definition ebind :: "'a result \<Rightarrow> ('a \<Rightarrow> 'b result) \<Rightarrow> 'b result" where
  "ebind m f = (case m of Inl e \<Rightarrow> Inl e | Inr x \<Rightarrow> f x)"

text \<open>\<^verbatim>\<open>bool(v)\<close>, as \<^verbatim>\<open>if v\<close> and \<^verbatim>\<open>a and b\<close> test it.\<close>

fun truthy :: "pyval \<Rightarrow> bool" where
  "truthy PNone = False"
| "truthy (PBool b) = b"
| "truthy (PInt i) = (i \<noteq> 0)"
| "truthy (PStr s) = (s \<noteq> [])"
| "truthy (PTimestamp t) = True"
| "truthy (PList xs) = (xs \<noteq> [])"
| "truthy (PDict kvs) = (kvs \<noteq> [])"

text \<open>
  \<^verbatim>\<open>k in v\<close> for a string \<open>k\<close>: key membership in a dictionary, element membership in a
  list, substring test in a string, \<^verbatim>\<open>TypeError\<close> on a value that is not a container.
\<close>

fun py_in :: "string \<Rightarrow> pyval \<Rightarrow> bool result" where
  "py_in k (PDict kvs) = Inr (k \<in> set (map fst kvs))"
| "py_in k (PList xs) = Inr (PStr k \<in> set xs)"
| "py_in k (PStr s) = Inr (sublist k s)"
| "py_in k PNone = Inl TypeError"
| "py_in k (PBool b) = Inl TypeError"
| "py_in k (PInt i) = Inl TypeError"
| "py_in k (PTimestamp t) = Inl TypeError"

text \<open>\<^verbatim>\<open>v[k]\<close> for a string \<open>k\<close>: only a dictionary can be subscripted by a string.\<close>

fun py_getitem :: "pyval \<Rightarrow> string \<Rightarrow> pyval result" where
  "py_getitem (PDict kvs) k = (case map_of kvs k of None \<Rightarrow> Inl KeyError | Some v \<Rightarrow> Inr v)"
| "py_getitem PNone k = Inl TypeError"
| "py_getitem (PBool b) k = Inl TypeError"
| "py_getitem (PInt i) k = Inl TypeError"
| "py_getitem (PStr s) k = Inl TypeError"
| "py_getitem (PTimestamp t) k = Inl TypeError"
| "py_getitem (PList xs) k = Inl TypeError"

text \<open>\<^verbatim>\<open>v.get(k, d)\<close>: a method of dictionaries only.\<close>

fun py_get :: "pyval \<Rightarrow> string \<Rightarrow> pyval \<Rightarrow> pyval result" where
  "py_get (PDict kvs) k d = Inr (case map_of kvs k of None \<Rightarrow> d | Some v \<Rightarrow> v)"
| "py_get PNone k d = Inl AttributeError"
| "py_get (PBool b) k d = Inl AttributeError"
| "py_get (PInt i) k d = Inl AttributeError"
| "py_get (PStr s) k d = Inl AttributeError"
| "py_get (PTimestamp t) k d = Inl AttributeError"
| "py_get (PList xs) k d = Inl AttributeError"

text \<open>
  The sequence a \<^verbatim>\<open>for x in v\<close> loop runs over: the elements of a list, the keys of a
  dictionary, the characters of a string; anything else is not iterable.
\<close>

fun py_iter :: "pyval \<Rightarrow> pyval list result" where
  "py_iter (PList xs) = Inr xs"
| "py_iter (PDict kvs) = Inr (map (\<lambda>kv. PStr (fst kv)) kvs)"
| "py_iter (PStr s) = Inr (map (\<lambda>c. PStr [c]) s)"
| "py_iter PNone = Inl TypeError"
| "py_iter (PBool b) = Inl TypeError"
| "py_iter (PInt i) = Inl TypeError"
| "py_iter (PTimestamp t) = Inl TypeError"

text \<open>\<^verbatim>\<open>len(v)\<close>.\<close>

fun py_len :: "pyval \<Rightarrow> nat result" where
  "py_len (PList xs) = Inr (length xs)"
| "py_len (PDict kvs) = Inr (length kvs)"
| "py_len (PStr s) = Inr (length s)"
| "py_len PNone = Inl TypeError"
| "py_len (PBool b) = Inl TypeError"
| "py_len (PInt i) = Inl TypeError"
| "py_len (PTimestamp t) = Inl TypeError"

text \<open>
  \<^verbatim>\<open>v[0]\<close>: the first element of a list or string, \<^verbatim>\<open>IndexError\<close> when it is empty; a
  dictionary has string keys only, so the key \<open>0\<close> is missing.
\<close>

fun py_first :: "pyval \<Rightarrow> pyval result" where
  "py_first (PList []) = Inl IndexError"
| "py_first (PList (x # xs)) = Inr x"
| "py_first (PStr []) = Inl IndexError"
| "py_first (PStr (c # cs)) = Inr (PStr [c])"
| "py_first (PDict kvs) = Inl KeyError"
| "py_first PNone = Inl TypeError"
| "py_first (PBool b) = Inl TypeError"
| "py_first (PInt i) = Inl TypeError"
| "py_first (PTimestamp t) = Inl TypeError"

text \<open>
  A loop that appends the rows of each iteration to one list: the first exception ends
  it, and the rows gathered so far are lost with it.
\<close>

fun for_each :: "('a \<Rightarrow> 'b list result) \<Rightarrow> 'a list \<Rightarrow> 'b list result" where
  "for_each f [] = Inr []"
| "for_each f (x # xs) =
     (case f x of
        Inl e \<Rightarrow> Inl e
      | Inr ys \<Rightarrow> (case for_each f xs of Inl e \<Rightarrow> Inl e | Inr zs \<Rightarrow> Inr (ys @ zs)))"

section \<open>The extraction layer (dashboard.py)\<close>

text \<open>
  A table is the list of its rows, in table order, as \<^verbatim>\<open>df.iterrows()\<close> yields them; a
  row maps the column labels to the cells. \<^verbatim>\<open>row[k]\<close> raises \<^verbatim>\<open>KeyError\<close> for a label
  the table does not have, \<^verbatim>\<open>k in row\<close> tests the labels.
\<close>

type_synonym series = "(string \<times> pyval) list"

type_synonym dataframe = "series list"

definition series_getitem :: "series \<Rightarrow> string \<Rightarrow> pyval result" where
  "series_getitem row k = (case map_of row k of None \<Rightarrow> Inl KeyError | Some v \<Rightarrow> Inr v)"

definition series_contains :: "string \<Rightarrow> series \<Rightarrow> bool" where
  "series_contains k row = (k \<in> set (map fst row))"

text \<open>
  The guard of lines 66, 102 and 123: the branch runs when the table has the column and
  the cell is truthy.
\<close>

definition feature_branch ::
  "series \<Rightarrow> string \<Rightarrow> (pyval \<Rightarrow> series list result) \<Rightarrow> series list result" where
  "feature_branch row k body =
     (if series_contains k row then
        ebind (series_getitem row k) (\<lambda>v. if truthy v then body v else Inr [])
      else Inr [])"

subsection \<open>extract_language_metrics\<close>

text \<open>The dictionary appended for one language entry (lines 78 to 89).\<close>

definition language_row :: "pyval \<Rightarrow> pyval \<Rightarrow> pyval \<Rightarrow> pyval \<Rightarrow> series result" where
  "language_row date org editor_name lang =
     ebind (py_get lang ''name'' (PStr ''unknown'')) (\<lambda>name.
     ebind (py_get lang ''total_engaged_users'' (PInt 0)) (\<lambda>engaged.
     ebind (py_get lang ''total_code_acceptances'' (PInt 0)) (\<lambda>acceptances.
     ebind (py_get lang ''total_code_suggestions'' (PInt 0)) (\<lambda>suggestions.
     ebind (py_get lang ''total_code_lines_accepted'' (PInt 0)) (\<lambda>lines_accepted.
     ebind (py_get lang ''total_code_lines_suggested'' (PInt 0)) (\<lambda>lines_suggested.
       Inr [(''date'', date),
            (''organization'', org),
            (''editor'', editor_name),
            (''language'', name),
            (''total_engaged_users'', engaged),
            (''total_code_acceptances'', acceptances),
            (''total_code_suggestions'', suggestions),
            (''total_code_lines_accepted'', lines_accepted),
            (''total_code_lines_suggested'', lines_suggested),
            (''feature_type'', PStr ''code_completions'')]))))))"

text \<open>Lines 76 to 89: the languages of one model.\<close>

definition model_languages :: "pyval \<Rightarrow> pyval \<Rightarrow> pyval \<Rightarrow> pyval \<Rightarrow> series list result" where
  "model_languages date org editor_name model =
     ebind (py_in ''languages'' model) (\<lambda>has.
       if has then
         ebind (py_getitem model ''languages'') (\<lambda>langs.
         ebind (py_iter langs)
           (for_each (\<lambda>lang. ebind (language_row date org editor_name lang) (\<lambda>r. Inr [r]))))
       else Inr [])"

text \<open>Lines 72 to 89: the models of one editor.\<close>

definition editor_languages :: "pyval \<Rightarrow> pyval \<Rightarrow> pyval \<Rightarrow> series list result" where
  "editor_languages date org editor =
     ebind (py_get editor ''name'' (PStr ''unknown'')) (\<lambda>editor_name.
     ebind (py_in ''models'' editor) (\<lambda>has.
       if has then
         ebind (py_getitem editor ''models'') (\<lambda>models.
         ebind (py_iter models) (for_each (model_languages date org editor_name)))
       else Inr []))"

text \<open>Lines 70 to 89: the editors of the code-completions structure.\<close>

definition completions_languages :: "pyval \<Rightarrow> pyval \<Rightarrow> pyval \<Rightarrow> series list result" where
  "completions_languages date org completions =
     ebind (py_in ''editors'' completions) (\<lambda>has.
       if has then
         ebind (py_getitem completions ''editors'') (\<lambda>editors.
         ebind (py_iter editors) (for_each (editor_languages date org)))
       else Inr [])"

text \<open>Lines 62 to 89: the body of the loop over the rows.\<close>

definition row_language_metrics :: "series \<Rightarrow> series list result" where
  "row_language_metrics row =
     ebind (series_getitem row ''date'') (\<lambda>date.
     ebind (series_getitem row ''organization'') (\<lambda>org.
       feature_branch row ''copilot_ide_code_completions'' (completions_languages date org)))"

definition extract_language_metrics :: "dataframe \<Rightarrow> dataframe result" where
  "extract_language_metrics df = for_each row_language_metrics df"

subsection \<open>extract_chat_metrics\<close>

text \<open>The dictionary appended for one model of an editor's IDE chat (lines 111 to 120).\<close>

definition ide_chat_row :: "pyval \<Rightarrow> pyval \<Rightarrow> pyval \<Rightarrow> pyval \<Rightarrow> series result" where
  "ide_chat_row date org editor_name model =
     ebind (py_get model ''total_engaged_users'' (PInt 0)) (\<lambda>engaged.
     ebind (py_get model ''total_chats'' (PInt 0)) (\<lambda>chats.
     ebind (py_get model ''total_chat_copy_events'' (PInt 0)) (\<lambda>copies.
     ebind (py_get model ''total_chat_insertion_events'' (PInt 0)) (\<lambda>insertions.
       Inr [(''date'', date),
            (''organization'', org),
            (''editor'', editor_name),
            (''feature_type'', PStr ''ide_chat''),
            (''total_engaged_users'', engaged),
            (''total_chats'', chats),
            (''total_chat_copy_events'', copies),
            (''total_chat_insertion_events'', insertions)]))))"

text \<open>Lines 107 to 120: the models of one editor.\<close>

definition editor_chats :: "pyval \<Rightarrow> pyval \<Rightarrow> pyval \<Rightarrow> series list result" where
  "editor_chats date org editor =
     ebind (py_get editor ''name'' (PStr ''unknown'')) (\<lambda>editor_name.
     ebind (py_in ''models'' editor) (\<lambda>has.
       if has then
         ebind (py_getitem editor ''models'') (\<lambda>models.
         ebind (py_iter models)
           (for_each (\<lambda>model. ebind (ide_chat_row date org editor_name model) (\<lambda>r. Inr [r]))))
       else Inr []))"

text \<open>Lines 105 to 120: the editors of the IDE chat structure.\<close>

definition ide_chat_rows :: "pyval \<Rightarrow> pyval \<Rightarrow> pyval \<Rightarrow> series list result" where
  "ide_chat_rows date org chat =
     ebind (py_in ''editors'' chat) (\<lambda>has.
       if has then
         ebind (py_getitem chat ''editors'') (\<lambda>editors.
         ebind (py_iter editors) (for_each (editor_chats date org)))
       else Inr [])"

text \<open>
  Lines 126 to 128: the chat count of the web chat, read from the first model when the
  structure has a \<^verbatim>\<open>models\<close> entry that is truthy and of positive length; the three
  tests are joined by \<^verbatim>\<open>and\<close>, so a later one runs only when the earlier ones hold.
\<close>

definition dotcom_total_chats :: "pyval \<Rightarrow> pyval result" where
  "dotcom_total_chats dotcom_chat =
     ebind (py_in ''models'' dotcom_chat) (\<lambda>has.
       if has then
         ebind (py_getitem dotcom_chat ''models'') (\<lambda>models.
           if truthy models then
             ebind (py_len models) (\<lambda>n.
               if n > 0 then
                 ebind (py_first models) (\<lambda>m. py_get m ''total_chats'' (PInt 0))
               else Inr (PInt 0))
           else Inr (PInt 0))
       else Inr (PInt 0))"

text \<open>Lines 124 to 139: the one row of the web chat structure.\<close>

definition dotcom_chat_rows :: "pyval \<Rightarrow> pyval \<Rightarrow> pyval \<Rightarrow> series list result" where
  "dotcom_chat_rows date org dotcom_chat =
     ebind (dotcom_total_chats dotcom_chat) (\<lambda>total_chats.
     ebind (py_get dotcom_chat ''total_engaged_users'' (PInt 0)) (\<lambda>engaged.
       Inr [[(''date'', date),
             (''organization'', org),
             (''editor'', PStr ''github.com''),
             (''feature_type'', PStr ''dotcom_chat''),
             (''total_engaged_users'', engaged),
             (''total_chats'', total_chats),
             (''total_chat_copy_events'', PInt 0),
             (''total_chat_insertion_events'', PInt 0)]]))"

text \<open>Lines 98 to 139: the body of the loop over the rows.\<close>

definition row_chat_metrics :: "series \<Rightarrow> series list result" where
  "row_chat_metrics row =
     ebind (series_getitem row ''date'') (\<lambda>date.
     ebind (series_getitem row ''organization'') (\<lambda>org.
     ebind (feature_branch row ''copilot_ide_chat'' (ide_chat_rows date org)) (\<lambda>ide.
     ebind (feature_branch row ''copilot_dotcom_chat'' (dotcom_chat_rows date org)) (\<lambda>dotcom.
       Inr (ide @ dotcom)))))"

definition extract_chat_metrics :: "dataframe \<Rightarrow> dataframe result" where
  "extract_chat_metrics df = for_each row_chat_metrics df"

section \<open>The typed long-format table and its aggregates (dashboard.py)\<close>

text \<open>
  The language table built from the extracted rows, with its columns typed: the date as
  a day number (the \<^verbatim>\<open>date\<close> column holds calendar dates, so a \<^verbatim>\<open>Timedelta\<close> of \<open>n\<close>
  days is the integer \<open>n\<close>), the counts as integers. Sums are taken over unbounded
  integers.
\<close>

record language_metric =
  date :: int
  organization :: string
  editor :: string
  language :: string
  total_engaged_users :: int
  total_code_acceptances :: int
  total_code_suggestions :: int
  total_code_lines_accepted :: int
  total_code_lines_suggested :: int

text \<open>A row of the language table, for the examples: date, language and three counts.\<close>

definition metric_row :: "int \<Rightarrow> string \<Rightarrow> int \<Rightarrow> int \<Rightarrow> int \<Rightarrow> language_metric" where
  "metric_row d l engaged acceptances suggestions =
     \<lparr>date = d, organization = ''acme'', editor = ''vscode'', language = l,
      total_engaged_users = engaged, total_code_acceptances = acceptances,
      total_code_suggestions = suggestions, total_code_lines_accepted = 0,
      total_code_lines_suggested = 0\<rparr>"

subsection \<open>Period windows (render_language_analysis, lines 258 to 301)\<close>

datatype period_option = Last_7_days | Last_14_days | Last_30_days | All_time

text \<open>The \<^verbatim>\<open>days\<close> each branch of lines 285 to 293 sets; none for \<^verbatim>\<open>"All time"\<close>.\<close>

fun period_days :: "period_option \<Rightarrow> int option" where
  "period_days Last_7_days = Some 7"
| "period_days Last_14_days = Some 14"
| "period_days Last_30_days = Some 30"
| "period_days All_time = None"

text \<open>
  The pair \<^verbatim>\<open>(filtered_lang_df, previous_lang_df)\<close> after line 301; nothing when the
  table is empty, where the function returns at line 260.
\<close>

definition period_windows ::
  "period_option \<Rightarrow> bool \<Rightarrow> language_metric list
     \<Rightarrow> (language_metric list \<times> language_metric list) option" where
  "period_windows period compare_previous lang_df =
     (if lang_df = [] then None
      else Some
        (case period_days period of
           None \<Rightarrow> (lang_df, [])
         | Some days \<Rightarrow>
             (let max_date = Max (set (map date lang_df));
                  start_date = max_date - (days - 1);
                  filtered = filter (\<lambda>r. date r \<ge> start_date) lang_df
              in if compare_previous then
                   (let prev_start = start_date - days;
                        prev_end = start_date - 1
                    in (filtered,
                        filter (\<lambda>r. date r \<ge> prev_start \<and> date r \<le> prev_end) lang_df))
                 else (filtered, []))))"

subsection \<open>calculate_acceptance_rate (lines 158 to 166)\<close>


subsection \<open>The engagement rate (render_overview, line 202)\<close>

text \<open>\<^verbatim>\<open>row.get(k, d)\<close> on a row: the default is taken only when the label is missing.\<close>

definition series_get :: "series \<Rightarrow> string \<Rightarrow> pyval \<Rightarrow> pyval" where
  "series_get row k d = (case map_of row k of None \<Rightarrow> d | Some v \<Rightarrow> v)"

text \<open>The numbers \<^verbatim>\<open>/\<close> accepts among the modelled values: integers and booleans.\<close>

fun py_number :: "pyval \<Rightarrow> int result" where
  "py_number (PInt i) = Inr i"
| "py_number (PBool b) = Inr (if b then 1 else 0)"
| "py_number PNone = Inl TypeError"
| "py_number (PStr s) = Inl TypeError"
| "py_number (PTimestamp t) = Inl TypeError"
| "py_number (PList xs) = Inl TypeError"
| "py_number (PDict kvs) = Inl TypeError"

text \<open>\<^verbatim>\<open>a / b\<close>: no finite value when the divisor is zero.\<close>

definition py_truediv :: "pyval \<Rightarrow> pyval \<Rightarrow> real result" where
  "py_truediv a b =
     ebind (py_number a) (\<lambda>x.
     ebind (py_number b) (\<lambda>y.
       if y = 0 then Inl DivisionByZero else Inr (real_of_int x / real_of_int y)))"

definition engagement_rate :: "series \<Rightarrow> real result" where
  "engagement_rate latest_data =
     ebind (py_truediv (series_get latest_data ''total_engaged_users'' (PInt 0))
                       (series_get latest_data ''total_active_users'' (PInt 1)))
       (\<lambda>q. Inr (q * 100))"

subsection \<open>The top languages (render_language_analysis, lines 304 to 311)\<close>








section \<open>Ingestion (main.py)\<close>

subsection \<open>load_json_files (lines 19 to 54)\<close>

text \<open>
  The directory tree. A file is given by what \<^verbatim>\<open>open\<close> and \<^verbatim>\<open>json.load\<close> make of it:
  the parsed value, or the exception raised. A directory lists its entries by name, in
  the order \<^verbatim>\<open>glob\<close> yields them.
\<close>

datatype fs_entry =
    File "pyval result"
  | Dir "(string \<times> fs_entry) list"





text \<open>Lines 33 and 34; opening a directory raises \<^verbatim>\<open>IsADirectoryError\<close>.\<close>

definition read_json :: "fs_entry \<Rightarrow> pyval result" where
  "read_json entry = (case entry of File c \<Rightarrow> c | Dir entries \<Rightarrow> Inl OSError)"

text \<open>
  \<^verbatim>\<open>Path.stem\<close> (pathlib, as in Python 3.12): the name up to its last dot, when
  that dot is neither the first nor the last character; the whole name otherwise.
\<close>

definition path_stem :: "string \<Rightarrow> string" where
  "path_stem name =
     (let ext = takeWhile (\<lambda>c. c \<noteq> CHR ''.'') (rev name)
      in if CHR ''.'' \<in> set name \<and> ext \<noteq> [] \<and> length ext + 1 < length name
         then take (length name - length ext - 1) name
         else name)"

text \<open>\<^verbatim>\<open>s.split('-', 1)[1]\<close>, for a string that has a dash: what follows the first one.\<close>

definition after_first_dash :: "string \<Rightarrow> string" where
  "after_first_dash s = tl (dropWhile (\<lambda>c. c \<noteq> CHR ''-'') s)"

text \<open>
  \<^verbatim>\<open>v[k] = x\<close>: a dictionary replaces the value of a key it has, in place, and puts a new
  key last; no other value takes a string subscript.
\<close>

fun py_setitem :: "pyval \<Rightarrow> string \<Rightarrow> pyval \<Rightarrow> pyval result" where
  "py_setitem (PDict kvs) k x = Inr (PDict (AList.update k x kvs))"
| "py_setitem PNone k x = Inl TypeError"
| "py_setitem (PBool b) k x = Inl TypeError"
| "py_setitem (PInt i) k x = Inl TypeError"
| "py_setitem (PStr s) k x = Inl TypeError"
| "py_setitem (PTimestamp t) k x = Inl TypeError"
| "py_setitem (PList xs) k x = Inl TypeError"

text \<open>Lines 33 to 42: the body of the \<^verbatim>\<open>try\<close>, up to the record it appends.\<close>

definition load_record :: "string \<Rightarrow> fs_entry \<Rightarrow> pyval result" where
  "load_record name entry =
     ebind (read_json entry) (\<lambda>data.
     ebind (py_in ''organization'' data) (\<lambda>has.
       if \<not> has then
         (let filename = path_stem name
          in if CHR ''-'' \<in> set filename
             then py_setitem data ''organization'' (PStr (after_first_dash filename))
             else Inr data)
       else Inr data))"





subsection \<open>process_data (lines 57 to 75)\<close>

















section \<open>Extraction: results\<close>

lemma ebind_Inr [simp]: "ebind (Inr x) f = f x"
  by (simp add: ebind_def)

lemma ebind_Inl [simp]: "ebind (Inl e) f = Inl e"
  by (simp add: ebind_def)

text \<open>
  C1. The claim: the two extraction functions never raise, whatever nested key is
  absent, null or an empty list. The code tests \<^verbatim>\<open>'editors' in completions\<close> (and
  likewise \<^verbatim>\<open>models\<close>, \<^verbatim>\<open>languages\<close>) and then iterates the value without testing it:
  a record whose code-completions or IDE chat structure carries \<^verbatim>\<open>"editors": null\<close>,
  or \<^verbatim>\<open>"models": null\<close> in an editor, or \<^verbatim>\<open>"languages": null\<close> in a model, makes the
  functions raise \<^verbatim>\<open>TypeError\<close>.
\<close>

theorem extract_raises_on_null_editors:
  "extract_language_metrics
     [[(''date'', PTimestamp 20240), (''organization'', PStr ''acme''),
       (''copilot_ide_code_completions'', PDict [(''editors'', PNone)])]] = Inl TypeError
   \<and> extract_language_metrics
     [[(''date'', PTimestamp 20240), (''organization'', PStr ''acme''),
       (''copilot_ide_code_completions'',
          PDict [(''editors'', PList [PDict [(''name'', PStr ''vscode''), (''models'', PNone)]])])]]
     = Inl TypeError
   \<and> extract_language_metrics
     [[(''date'', PTimestamp 20240), (''organization'', PStr ''acme''),
       (''copilot_ide_code_completions'',
          PDict [(''editors'', PList [PDict [(''name'', PStr ''vscode''),
            (''models'', PList [PDict [(''name'', PStr ''default''), (''languages'', PNone)]])]])])]]
     = Inl TypeError
   \<and> extract_chat_metrics
     [[(''date'', PTimestamp 20240), (''organization'', PStr ''acme''),
       (''copilot_ide_chat'', PDict [(''editors'', PNone)])]] = Inl TypeError
   \<and> extract_chat_metrics
     [[(''date'', PTimestamp 20240), (''organization'', PStr ''acme''),
       (''copilot_ide_chat'',
          PDict [(''editors'', PList [PDict [(''name'', PStr ''vscode''), (''models'', PNone)]])])]]
     = Inl TypeError"
  by (simp add: extract_language_metrics_def row_language_metrics_def series_getitem_def
      feature_branch_def series_contains_def completions_languages_def editor_languages_def
      model_languages_def extract_chat_metrics_def row_chat_metrics_def ide_chat_rows_def
      editor_chats_def)

subsection \<open>Branches that contribute no rows\<close>

















section \<open>Aggregation: results\<close>

subsection \<open>Period windows\<close>

lemma period_days_cases:
  "period_days period = Some N \<Longrightarrow> N = 7 \<or> N = 14 \<or> N = 30"
  by (cases period) auto

text \<open>
  C3. For a 7, 14 or 30 day selector on a non-empty table whose latest date is \<open>M\<close>, the
  current window is the rows dated \<open>M - (N - 1)\<close> or later; with comparison on, the
  previous window is the rows dated from \<open>M - (2N - 1)\<close> to \<open>M - N\<close>. That range has
  \<open>N\<close> days and ends the day before the current window starts, every row of the
  previous window is dated before every row of the current one, and the two windows share
  no row. The all-time selector keeps the whole table and has no previous window. Only
  the table enters the computation: \<open>M\<close> is its own latest date.
\<close>

theorem period_windows_spec:
  assumes "lang_df \<noteq> []" and "period_days period = Some N"
    and "M = Max (set (map date lang_df))"
    and "cur = filter (\<lambda>r. M - (N - 1) \<le> date r) lang_df"
    and "prev = filter (\<lambda>r. M - (2 * N - 1) \<le> date r \<and> date r \<le> M - N) lang_df"
  shows "period_windows period True lang_df = Some (cur, prev)
    \<and> period_windows period False lang_df = Some (cur, [])
    \<and> period_windows All_time cmp lang_df = Some (lang_df, [])
    \<and> card {M - (2 * N - 1) .. M - N} = nat N
    \<and> (M - N) + 1 = M - (N - 1)
    \<and> (\<forall>a \<in> set prev. \<forall>b \<in> set cur. date a < date b)
    \<and> set prev \<inter> set cur = {}"
proof -
  have N: "N = 7 \<or> N = 14 \<or> N = 30" using assms(2) by (rule period_days_cases)
  have w1: "period_windows period True lang_df = Some (cur, prev)"
    using assms by (auto simp: period_windows_def Let_def intro!: filter_cong)
  have w2: "period_windows period False lang_df = Some (cur, [])"
    using assms by (simp add: period_windows_def Let_def)
  have w3: "period_windows All_time cmp lang_df = Some (lang_df, [])"
    using assms(1) by (simp add: period_windows_def)
  have span: "card {M - (2 * N - 1) .. M - N} = nat N" using N by auto
  have before: "\<forall>a \<in> set prev. \<forall>b \<in> set cur. date a < date b"
    using assms(4,5) N by auto
  have disj: "set prev \<inter> set cur = {}" using assms(4,5) N by auto
  show ?thesis using w1 w2 w3 span before disj by simp
qed

theorem period_windows_spec_witness:
  "period_windows Last_7_days True
      [metric_row 20200 ''go'' 1 1 1, metric_row 20230 ''python'' 2 1 2,
       metric_row 20234 ''python'' 3 1 2, metric_row 20240 ''rust'' 4 1 3]
     = Some ([metric_row 20234 ''python'' 3 1 2, metric_row 20240 ''rust'' 4 1 3],
             [metric_row 20230 ''python'' 2 1 2])
   \<and> card {20240 - (2 * 7 - 1) .. 20240 - (7::int)} = nat 7"
  using period_windows_spec
    [where lang_df = "[metric_row 20200 ''go'' 1 1 1, metric_row 20230 ''python'' 2 1 2,
                       metric_row 20234 ''python'' 3 1 2, metric_row 20240 ''rust'' 4 1 3]"
       and period = Last_7_days and N = 7 and M = 20240
       and cur = "[metric_row 20234 ''python'' 3 1 2, metric_row 20240 ''rust'' 4 1 3]"
       and prev = "[metric_row 20230 ''python'' 2 1 2]"]
  by (simp add: metric_row_def)

subsection \<open>Acceptance rate\<close>




subsection \<open>Engagement rate\<close>

text \<open>
  C5. The claim: the engagement rate is guarded against a zero divisor by a floor of 1
  and is a finite number for every record. The 1 of line 202 is the default of
  \<^verbatim>\<open>get\<close>, used only when the record has no \<^verbatim>\<open>total_active_users\<close>; a record that
  carries \<^verbatim>\<open>total_active_users = 0\<close> is divided by zero. A record without the key
  shows the default at work.
\<close>

theorem engagement_rate_zero_active_users:
  "engagement_rate
     [(''date'', PTimestamp 20240), (''organization'', PStr ''acme''),
      (''total_active_users'', PInt 0), (''total_engaged_users'', PInt 0)] = Inl DivisionByZero
   \<and> engagement_rate
     [(''date'', PTimestamp 20240), (''organization'', PStr ''acme''),
      (''total_active_users'', PInt 0), (''total_engaged_users'', PInt 5)] = Inl DivisionByZero
   \<and> engagement_rate
     [(''date'', PTimestamp 20240), (''organization'', PStr ''acme''),
      (''total_engaged_users'', PInt 5)] = Inr 500
   \<and> engagement_rate
     [(''date'', PTimestamp 20247), (''organization'', PStr ''acme''),
      (''total_active_users'', PInt 100), (''total_engaged_users'', PInt 55)] = Inr 55"
  by (simp add: engagement_rate_def py_truediv_def series_get_def)

section \<open>Ingestion: results\<close>

subsection \<open>The organization of a record\<close>

lemma update_new_key: "k \<notin> fst ` set al \<Longrightarrow> AList.update k v al = al @ [(k, v)]"
  by (induction al) auto

lemma after_first_dash_split:
  "CHR ''-'' \<notin> set pre \<Longrightarrow> after_first_dash (pre @ CHR ''-'' # org) = org"
  by (induction pre) (auto simp: after_first_dash_def)

lemma path_stem_json: "base \<noteq> [] \<Longrightarrow> path_stem (base @ ''.json'') = base"
  by (simp add: path_stem_def Let_def)

lemma path_stem_no_dash: "CHR ''-'' \<notin> set base \<Longrightarrow> CHR ''-'' \<notin> set (path_stem (base @ ''.json''))"
  by (cases "base = []") (simp_all add: path_stem_json, simp add: path_stem_def)

text \<open>
  C6. A record without an \<^verbatim>\<open>organization\<close> key, read from a file whose stem has a
  dash, gets as organization what follows the first dash: the file
  \<open>pre-org.json\<close>, with no dash in \<open>pre\<close>, gives \<open>org\<close>, put last in the record. When
  the stem has no dash the record is kept as it is, without an organization. A record
  that has the key is kept as it is, whatever the file is called.
\<close>

theorem organization_from_filename:
  "(''organization'' \<notin> fst ` set d \<and> CHR ''-'' \<notin> set pre
      \<longrightarrow> load_record (pre @ CHR ''-'' # org @ ''.json'') (File (Inr (PDict d)))
          = Inr (PDict (d @ [(''organization'', PStr org)])))
   \<and> (''organization'' \<notin> fst ` set d \<and> CHR ''-'' \<notin> set base
      \<longrightarrow> load_record (base @ ''.json'') (File (Inr (PDict d))) = Inr (PDict d))
   \<and> (''organization'' \<in> fst ` set d
      \<longrightarrow> load_record name (File (Inr (PDict d))) = Inr (PDict d))"
proof (intro conjI impI)
  assume a: "''organization'' \<notin> fst ` set d \<and> CHR ''-'' \<notin> set pre"
  have "path_stem ((pre @ CHR ''-'' # org) @ ''.json'') = pre @ CHR ''-'' # org"
    by (rule path_stem_json) simp
  then have stem: "path_stem (pre @ CHR ''-'' # org @ ''.json'') = pre @ CHR ''-'' # org"
    by simp
  show "load_record (pre @ CHR ''-'' # org @ ''.json'') (File (Inr (PDict d)))
          = Inr (PDict (d @ [(''organization'', PStr org)]))"
    using a by (simp add: load_record_def read_json_def stem after_first_dash_split update_new_key)
next
  assume a: "''organization'' \<notin> fst ` set d \<and> CHR ''-'' \<notin> set base"
  then have "CHR ''-'' \<notin> set (path_stem (base @ ''.json''))" by (simp add: path_stem_no_dash)
  with a show "load_record (base @ ''.json'') (File (Inr (PDict d))) = Inr (PDict d)"
    by (simp add: load_record_def read_json_def)
next
  assume "''organization'' \<in> fst ` set d"
  then show "load_record name (File (Inr (PDict d))) = Inr (PDict d)"
    by (simp add: load_record_def read_json_def)
qed

theorem organization_from_filename_witness:
  "load_record ''15-acme.json'' (File (Inr (PDict [(''date'', PStr ''2025-06-15'')])))
     = Inr (PDict [(''date'', PStr ''2025-06-15''), (''organization'', PStr ''acme'')])
   \<and> load_record ''15.json'' (File (Inr (PDict [(''date'', PStr ''2025-06-15'')])))
     = Inr (PDict [(''date'', PStr ''2025-06-15'')])
   \<and> load_record ''15-acme.json''
        (File (Inr (PDict [(''date'', PStr ''2025-06-15''), (''organization'', PStr ''initech'')])))
     = Inr (PDict [(''date'', PStr ''2025-06-15''), (''organization'', PStr ''initech'')])"
  using organization_from_filename
    [where d = "[(''date'', PStr ''2025-06-15'')]" and pre = "''15''" and org = "''acme''"
       and base = "''15''"]
    organization_from_filename
    [where d = "[(''date'', PStr ''2025-06-15''), (''organization'', PStr ''initech'')]"
       and name = "''15-acme.json''"]
  by simp

subsection \<open>Files that fail to load\<close>










section \<open>Ingestion: process_data\<close>

subsection \<open>The two coercions and the reordering\<close>

















subsection \<open>Orderings that keep the promise of the default sort\<close>







subsection \<open>Coercion and order\<close>




subsection \<open>What process_data leaves alone\<close>



section \<open>Aggregation: the top languages\<close>














end
